theory Spec2Isabelle
  imports Complex_Main
begin

section \<open>JavaScript values\<close>

text \<open>
  A JavaScript Number is modelled as an exact rational or \<open>NaN\<close>: every finite amount,
  limit and counter of the program is a \<open>Num\<close>, and \<open>NaN\<close> is what arithmetic on
  \<open>undefined\<close> produces. Rounding and the infinities of IEEE doubles are not modelled.
  Comparisons with \<open>NaN\<close> are false, as in JavaScript.
\<close>

datatype number = Num rat | NaN

fun js_add :: "number \<Rightarrow> number \<Rightarrow> number" where
  "js_add (Num a) (Num b) = Num (a + b)"
| "js_add _ _ = NaN"

fun js_mul :: "number \<Rightarrow> number \<Rightarrow> number" where
  "js_mul (Num a) (Num b) = Num (a * b)"
| "js_mul _ _ = NaN"

text \<open>Division by zero (an infinity in JavaScript) is never reached with the rate table
  below, whose entries are non-zero; the model maps it to \<open>NaN\<close>.\<close>

fun js_div :: "number \<Rightarrow> number \<Rightarrow> number" where
  "js_div (Num a) (Num b) = (if b = 0 then NaN else Num (a / b))"
| "js_div _ _ = NaN"

fun js_gt :: "number \<Rightarrow> number \<Rightarrow> bool" where
  "js_gt (Num a) (Num b) = (b < a)"
| "js_gt _ _ = False"

fun js_le :: "number \<Rightarrow> number \<Rightarrow> bool" where
  "js_le (Num a) (Num b) = (a \<le> b)"
| "js_le _ _ = False"

text \<open>\<open>ToNumber\<close> of a property read: a missing property is \<open>undefined\<close>, which
  arithmetic turns into \<open>NaN\<close>.\<close>

fun toNumber :: "rat option \<Rightarrow> number" where
  "toNumber (Some r) = Num r"
| "toNumber None = NaN"

text \<open>Other values that travel through the program: provider result codes and the
  entries of the metadata bag.\<close>

datatype js_value =
    JNum int | JStr string | JList "string list" | JUndefined
  | JObj "(string \<times> js_value) list"





text \<open>A \<open>Date\<close> is its number of milliseconds since the epoch. The calendar getters of
  the runtime (local time zone), the SHA-256 digest and the card decryption are parameters
  of the model. Every \<open>new Date()\<close> and \<open>Date.now()\<close> of one invocation reads the same
  instant, the argument \<open>now\<close>.\<close>

type_synonym date = int

record runtime =
  getFullYear :: "date \<Rightarrow> int"
  getMonth :: "date \<Rightarrow> int"
  getDate :: "date \<Rightarrow> int"
  sha256 :: "string \<Rightarrow> string"
  decryptData :: "string \<Rightarrow> string"

section \<open>Payment gateway: result mapping (mpesaService)\<close>

record card_response =
  approved :: bool
  authorizationCode :: "string option"
  responseCode :: "string option"
  responseDescription :: "string option"
  declineCode :: "string option"
  declineReason :: "string option"

definition decline_response :: "string \<Rightarrow> string \<Rightarrow> card_response" where
  "decline_response code why =
     \<lparr>approved = False, authorizationCode = None, responseCode = None,
      responseDescription = None, declineCode = Some code, declineReason = Some why\<rparr>"

text \<open>\<open>resultDescription || 'System malfunction'\<close>: an absent or empty description is
  falsy.\<close>

definition description_or :: "string option \<Rightarrow> string \<Rightarrow> string" where
  "description_or d dflt = (case d of None \<Rightarrow> dflt | Some x \<Rightarrow> (if x = [] then dflt else x))"

text \<open>\<open>mapMpesaResultToCardResponse\<close>. The \<open>switch\<close> compares with strict equality, so
  only numeric codes can match a case. \<open>authCode\<close> is the string that
  \<open>generateAuthorizationCode()\<close> (six random base-36 characters) returns in this call.\<close>

definition mapMpesaResultToCardResponse ::
    "string \<Rightarrow> js_value \<Rightarrow> string option \<Rightarrow> card_response" where
  "mapMpesaResultToCardResponse authCode resultCode resultDescription =
     (if resultCode = JNum 0 then
        \<lparr>approved = True, authorizationCode = Some authCode, responseCode = Some ''00'',
         responseDescription = Some ''Approved'', declineCode = None, declineReason = None\<rparr>
      else if resultCode = JNum 1 then decline_response ''51'' ''Insufficient funds''
      else if resultCode = JNum 2 then decline_response ''05'' ''Declined''
      else if resultCode = JNum 1032 then decline_response ''13'' ''Invalid amount''
      else if resultCode = JNum 1037 then decline_response ''12'' ''Invalid transaction''
      else if resultCode = JNum 2001 then decline_response ''14'' ''Invalid card number''
      else if resultCode = JNum 2002 then decline_response ''15'' ''Invalid card''
      else decline_response ''96'' (description_or resultDescription ''System malfunction''))"

definition mapped_codes :: "js_value set" where
  "mapped_codes = {JNum 0, JNum 1, JNum 2, JNum 1032, JNum 1037, JNum 2001, JNum 2002}"

section \<open>Currency conversion (authorizationService)\<close>

text \<open>The literal \<open>rates\<close> object. A key it does not have reads as \<open>undefined\<close>
  (or as an inherited non-numeric property), which is \<open>None\<close> here.\<close>

definition rates :: "string \<Rightarrow> rat option" where
  "rates c = (if c = ''USD'' then Some 150
              else if c = ''EUR'' then Some 165
              else if c = ''GBP'' then Some 190
              else None)"

text \<open>\<open>convertCurrency\<close>. Nothing in the \<open>try\<close> block throws on a missing rate, so the
  \<open>catch\<close> branch (\<open>return amount\<close>) is not a branch the arithmetic can reach.\<close>

definition convertCurrency :: "number \<Rightarrow> string \<Rightarrow> string \<Rightarrow> number" where
  "convertCurrency amount fromCurrency toCurrency =
     (if fromCurrency = toCurrency then amount
      else if fromCurrency = ''KES'' then js_div amount (toNumber (rates toCurrency))
      else if toCurrency = ''KES'' then js_mul amount (toNumber (rates fromCurrency))
      else (let kesAmount = js_mul amount (toNumber (rates fromCurrency))
            in js_div kesAmount (toNumber (rates toCurrency))))"

section \<open>Documents and the store\<close>

text \<open>Only the fields the authorization flow reads or writes are kept. Identity is the
  primary key (\<open>_id\<close>); a store holds the three collections.\<close>

record user =
  user_pk :: nat
  is_active :: bool
  mpesa_phone :: string
  daily_transaction_limit :: number
  single_transaction_limit :: number
  total_daily_spent :: number
  reset_daily_spent_at :: date

datatype card_status = Active | Suspended | Card_expired | Card_cancelled

record virtualCard =
  card_pk :: nat
  card_user_id :: nat
  card_number_hash :: string
  expiry_month :: int
  expiry_year :: int
  cvv :: string
  card_status :: card_status
  daily_limit :: number
  monthly_limit :: number
  total_spent_today :: number
  total_spent_month :: number
  last_used :: "date option"

datatype tx_status =
    Pending_authorization | Stk_push_sent | Awaiting_user_response
  | Approved | Declined | Failed | Expired | Cancelled

text \<open>The schema's top-level gateway fields other than \<open>mpesa_checkout_request_id\<close>
  are never read or written by the flow below (\<open>updateStatus\<close> merges what it is given
  into \<open>metadata\<close>), so they are left out.\<close>

record transaction =
  tx_pk :: nat
  user_id :: nat
  card_id :: nat
  transaction_reference :: string
  amount :: number
  currency :: string
  amount_kes :: number
  merchant_name :: string
  merchant_id :: "string option"
  merchant_category :: "string option"
  status :: tx_status
  mpesa_checkout_request_id :: "string option"
  stk_push_sent_at :: "date option"
  user_response_at :: "date option"
  completed_at :: "date option"
  timeout_at :: "date option"
  metadata :: "string \<rightharpoonup> js_value"

record store =
  transactions :: "transaction list"
  cards :: "virtualCard list"
  users :: "user list"

definition save_transaction :: "transaction \<Rightarrow> store \<Rightarrow> store" where
  "save_transaction t s =
     s\<lparr>transactions := map (\<lambda>x. if tx_pk x = tx_pk t then t else x) (transactions s)\<rparr>"

definition save_card :: "virtualCard \<Rightarrow> store \<Rightarrow> store" where
  "save_card c s = s\<lparr>cards := map (\<lambda>x. if card_pk x = card_pk c then c else x) (cards s)\<rparr>"

definition save_user :: "user \<Rightarrow> store \<Rightarrow> store" where
  "save_user u s = s\<lparr>users := map (\<lambda>x. if user_pk x = user_pk u then u else x) (users s)\<rparr>"





section \<open>The document mapper (Mongoose 8)\<close>


definition card_path :: "virtualCard \<Rightarrow> string \<Rightarrow> js_value option" where
  "card_path c p =
     (if p = ''card_number_hash'' then Some (JStr (card_number_hash c)) else None)"

definition meets :: "('d \<Rightarrow> string \<Rightarrow> js_value option) \<Rightarrow> (string \<times> js_value) list \<Rightarrow> 'd \<Rightarrow> bool" where
  "meets paths flt d = list_all (\<lambda>(p, v). paths d p = Some v) flt"

definition findOne ::
    "('d \<Rightarrow> string \<Rightarrow> js_value option) \<Rightarrow> (string \<times> js_value) list \<Rightarrow> 'd list \<Rightarrow> 'd option" where
  "findOne paths flt docs = find (meets paths flt) docs"



definition findByCardNumberHash :: "string \<Rightarrow> store \<Rightarrow> virtualCard option" where
  "findByCardNumberHash hash s =
     findOne card_path [(''card_number_hash'', JStr hash)] (cards s)"



section \<open>Cardholder (User model)\<close>

record limit_check =
  allowed :: bool
  reason :: "string option"

definition resetDailySpent :: "date \<Rightarrow> user \<Rightarrow> store \<Rightarrow> user \<times> store" where
  "resetDailySpent now u s =
     (let u' = u\<lparr>total_daily_spent := Num 0, reset_daily_spent_at := now\<rparr>
      in (u', save_user u' s))"

definition new_day :: "runtime \<Rightarrow> date \<Rightarrow> date \<Rightarrow> bool" where
  "new_day rt now lastReset =
     (getDate rt now \<noteq> getDate rt lastReset \<or>
      getMonth rt now \<noteq> getMonth rt lastReset \<or>
      getFullYear rt now \<noteq> getFullYear rt lastReset)"

text \<open>\<open>User.canMakeTransaction\<close> mutates and saves the document (the lazy daily reset)
  before it checks; the model returns the answer, the document and the store.\<close>

definition User_canMakeTransaction ::
    "runtime \<Rightarrow> date \<Rightarrow> user \<Rightarrow> number \<Rightarrow> store \<Rightarrow> limit_check \<times> user \<times> store" where
  "User_canMakeTransaction rt now u amt s =
     (let (u', s') = (if new_day rt now (reset_daily_spent_at u)
                      then resetDailySpent now u s else (u, s))
      in if js_gt amt (single_transaction_limit u') then
           (\<lparr>allowed = False, reason = Some ''Single transaction limit exceeded''\<rparr>, u', s')
         else if js_gt (js_add (total_daily_spent u') amt) (daily_transaction_limit u') then
           (\<lparr>allowed = False, reason = Some ''Daily transaction limit exceeded''\<rparr>, u', s')
         else (\<lparr>allowed = True, reason = None\<rparr>, u', s'))"

section \<open>Card (VirtualCard model)\<close>

definition VirtualCard_isExpired :: "runtime \<Rightarrow> date \<Rightarrow> virtualCard \<Rightarrow> bool" where
  "VirtualCard_isExpired rt now c =
     (let currentYear = getFullYear rt now;
          currentMonth = getMonth rt now + 1
      in if expiry_year c < currentYear then True
         else if expiry_year c = currentYear \<and> expiry_month c < currentMonth then True
         else False)"

definition VirtualCard_canMakeTransaction ::
    "runtime \<Rightarrow> date \<Rightarrow> virtualCard \<Rightarrow> number \<Rightarrow> limit_check" where
  "VirtualCard_canMakeTransaction rt now c amt =
     (if card_status c \<noteq> Active then
        \<lparr>allowed = False, reason = Some ''Card is not active''\<rparr>
      else if VirtualCard_isExpired rt now c then
        \<lparr>allowed = False, reason = Some ''Card has expired''\<rparr>
      else if js_gt (js_add (total_spent_today c) amt) (daily_limit c) then
        \<lparr>allowed = False, reason = Some ''Daily limit exceeded''\<rparr>
      else if js_gt (js_add (total_spent_month c) amt) (monthly_limit c) then
        \<lparr>allowed = False, reason = Some ''Monthly limit exceeded''\<rparr>
      else \<lparr>allowed = True, reason = None\<rparr>)"


section \<open>Ledger entry (Transaction model)\<close>



text \<open>\<open>updateStatus\<close>, without its final \<open>save()\<close> (the callers below persist the
  result with \<open>save_transaction\<close>). The object spread is map override.\<close>

definition updateStatus ::
    "date \<Rightarrow> tx_status \<Rightarrow> (string \<rightharpoonup> js_value) \<Rightarrow> transaction \<Rightarrow> transaction" where
  "updateStatus now st md t =
     (let t1 = t\<lparr>status := st, metadata := metadata t ++ md\<rparr>
      in case st of
           Stk_push_sent \<Rightarrow> t1\<lparr>stk_push_sent_at := Some now\<rparr>
         | Awaiting_user_response \<Rightarrow> t1\<lparr>user_response_at := Some now\<rparr>
         | Approved \<Rightarrow> t1\<lparr>completed_at := Some now\<rparr>
         | Declined \<Rightarrow> t1\<lparr>completed_at := Some now\<rparr>
         | Failed \<Rightarrow> t1\<lparr>completed_at := Some now\<rparr>
         | _ \<Rightarrow> t1)"

definition terminal :: "tx_status \<Rightarrow> bool" where
  "terminal st = (st = Approved \<or> st = Declined \<or> st = Failed \<or> st = Expired \<or> st = Cancelled)"

text \<open>The filter of \<open>findPendingTransactions\<close>: \<open>$lt\<close> does not match a document whose
  \<open>timeout_at\<close> is missing.\<close>

definition pending_filter :: "date \<Rightarrow> transaction \<Rightarrow> bool" where
  "pending_filter now t =
     ((status t = Stk_push_sent \<or> status t = Awaiting_user_response) \<and>
      (case timeout_at t of None \<Rightarrow> False | Some d \<Rightarrow> d < now))"

definition findPendingTransactions :: "date \<Rightarrow> store \<Rightarrow> transaction list" where
  "findPendingTransactions now s = filter (pending_filter now) (transactions s)"

section \<open>Reconciliation (authorizationService.handleSTKCallback)\<close>

record callback_data =
  checkoutRequestID :: "string option"
  resultCode :: js_value
  resultDescription :: "string option"
  mpesaReceiptNumber :: "string option"





section \<open>Status query (authorizationService.queryTransactionStatus)\<close>







section \<open>Expiry sweep\<close>

text \<open>Modelled from the spec: the sweep that the scheduler triggers is not among the
  sources; only its selection query \<open>findPendingTransactions\<close> is. Following section 4.7,
  every selected entry is moved to \<open>expired\<close> by the transition operation, each one on
  its own.\<close>

definition expirySweep :: "date \<Rightarrow> store \<Rightarrow> store" where
  "expirySweep now s =
     s\<lparr>transactions :=
         map (\<lambda>t. if pending_filter now t then updateStatus now Expired Map.empty t else t)
             (transactions s)\<rparr>"

section \<open>Card validation and fraud check (cardService)\<close>

datatype validation = Invalid string | Valid virtualCard



section \<open>Authorization (authorizationService.authorizeTransaction)\<close>













section \<open>Example data\<close>

text \<open>A runtime to evaluate the model on: a simplified calendar (years of twelve
  30-day months), and identity functions for the digest and the decryption.\<close>

definition ex_runtime :: runtime where
  "ex_runtime =
     \<lparr>getFullYear = (\<lambda>d. 1970 + d div 31104000000),
      getMonth = (\<lambda>d. (d div 2592000000) mod 12),
      getDate = (\<lambda>d. 1 + (d div 86400000) mod 30),
      sha256 = (\<lambda>x. x),
      decryptData = (\<lambda>x. x)\<rparr>"

definition ex_user :: "number \<Rightarrow> user" where
  "ex_user spent =
     \<lparr>user_pk = 1, is_active = True, mpesa_phone = ''254700000001'',
      daily_transaction_limit = Num 70000, single_transaction_limit = Num 70000,
      total_daily_spent = spent, reset_daily_spent_at = 0\<rparr>"

definition ex_card :: "number \<Rightarrow> virtualCard" where
  "ex_card spent =
     \<lparr>card_pk = 1, card_user_id = 1, card_number_hash = ''4000011234567890'',
      expiry_month = 12, expiry_year = 1975, cvv = ''123'', card_status = Active,
      daily_limit = Num 70000, monthly_limit = Num 1000000,
      total_spent_today = spent, total_spent_month = spent, last_used = None\<rparr>"

definition ex_entry :: "tx_status \<Rightarrow> date option \<Rightarrow> transaction" where
  "ex_entry st deadline =
     \<lparr>tx_pk = 1, user_id = 1, card_id = 1, transaction_reference = ''TXN1A'',
      amount = Num 1000, currency = ''KES'', amount_kes = Num 1000,
      merchant_name = ''Shop'', merchant_id = None, merchant_category = None,
      status = st, mpesa_checkout_request_id = Some ''ws_CO_1'',
      stk_push_sent_at = None, user_response_at = None, completed_at = None,
      timeout_at = deadline, metadata = Map.empty\<rparr>"

definition ex_store :: "tx_status \<Rightarrow> date option \<Rightarrow> number \<Rightarrow> store" where
  "ex_store st deadline spent =
     \<lparr>transactions = [ex_entry st deadline], cards = [ex_card spent], users = [ex_user spent]\<rparr>"




section \<open>Result mapping\<close>

text \<open>
  C7. The result-code mapper answers for every result code, numeric or not: it approves
  exactly the code 0, an approval carries the generated authorization code, every
  non-approval carries a decline code and a reason, and every code outside the seven
  mapped ones gives the decline \<open>96\<close> whose reason is the provider's description or,
  failing that, \<open>System malfunction\<close>.
\<close>

theorem mapMpesaResult_total:
  "(approved (mapMpesaResultToCardResponse a code d) \<longleftrightarrow> code = JNum 0) \<and>
   (approved (mapMpesaResultToCardResponse a code d) \<longrightarrow>
      authorizationCode (mapMpesaResultToCardResponse a code d) = Some a) \<and>
   (\<not> approved (mapMpesaResultToCardResponse a code d) \<longrightarrow>
      declineCode (mapMpesaResultToCardResponse a code d) \<noteq> None \<and>
      declineReason (mapMpesaResultToCardResponse a code d) \<noteq> None) \<and>
   (code \<notin> mapped_codes \<longrightarrow>
      mapMpesaResultToCardResponse a code d =
        decline_response ''96'' (description_or d ''System malfunction''))"
  by (simp add: mapMpesaResultToCardResponse_def decline_response_def mapped_codes_def)

theorem mapMpesaResult_total_witness:
  "JStr ''0'' \<notin> mapped_codes \<and> JNum 17 \<notin> mapped_codes \<and>
   \<not> approved (mapMpesaResultToCardResponse ''A1B2C3'' (JNum 17) None) \<and>
   declineCode (mapMpesaResultToCardResponse ''A1B2C3'' (JNum 17) None) = Some ''96'' \<and>
   declineReason (mapMpesaResultToCardResponse ''A1B2C3'' (JNum 17) None)
     = Some ''System malfunction'' \<and>
   declineReason (mapMpesaResultToCardResponse ''A1B2C3'' (JStr ''0'') (Some ''Odd''))
     = Some ''Odd'' \<and>
   authorizationCode (mapMpesaResultToCardResponse ''A1B2C3'' (JNum 0) None) = Some ''A1B2C3''"
  using mapMpesaResult_total [of "''A1B2C3''" "JNum 17" None]
        mapMpesaResult_total [of "''A1B2C3''" "JStr ''0''" "Some ''Odd''"]
        mapMpesaResult_total [of "''A1B2C3''" "JNum 0" None]
  by (simp add: mapped_codes_def decline_response_def description_or_def)

section \<open>Currency conversion\<close>

text \<open>
  C9. Converting 100 units of a currency that the rate table does not list (JPY) into KES
  does not give the amount back: the missing rate reads as \<open>undefined\<close>, the product is
  \<open>NaN\<close>, and no exception reaches the \<open>catch\<close> block that would return the amount.
\<close>

theorem convertCurrency_missing_rate:
  "convertCurrency (Num 100) ''JPY'' ''KES'' = NaN \<and>
   convertCurrency (Num 100) ''JPY'' ''KES'' \<noteq> Num 100"
  by (simp add: convertCurrency_def rates_def)

text \<open>The rest of the conversion is as described: equal currencies give the amount
  back, and a listed rate multiplies it.\<close>

lemma convertCurrency_same: "convertCurrency a c c = a"
  by (simp add: convertCurrency_def)

lemma convertCurrency_to_KES:
  "c \<noteq> ''KES'' \<Longrightarrow> convertCurrency a c ''KES'' = js_mul a (toNumber (rates c))"
  by (simp add: convertCurrency_def)

lemma convertCurrency_unlisted:
  "c \<noteq> ''KES'' \<Longrightarrow> rates c = None \<Longrightarrow> convertCurrency a c ''KES'' = NaN"
  by (cases a) (simp_all add: convertCurrency_def)

section \<open>Limit evaluation\<close>

lemma js_le_not_gt: "js_le x y \<Longrightarrow> \<not> js_gt x y"
  by (cases x; cases y) simp_all

lemma user_allowed_iff:
  "allowed (fst (User_canMakeTransaction rt now u a s)) \<longleftrightarrow>
     \<not> js_gt a (single_transaction_limit u) \<and>
     \<not> js_gt (js_add (if new_day rt now (reset_daily_spent_at u)
                       then Num 0 else total_daily_spent u) a)
             (daily_transaction_limit u)"
  by (simp add: User_canMakeTransaction_def resetDailySpent_def Let_def)

lemma card_allowed_iff:
  "allowed (VirtualCard_canMakeTransaction rt now c a) \<longleftrightarrow>
     card_status c = Active \<and> \<not> VirtualCard_isExpired rt now c \<and>
     \<not> js_gt (js_add (total_spent_today c) a) (daily_limit c) \<and>
     \<not> js_gt (js_add (total_spent_month c) a) (monthly_limit c)"
  by (simp add: VirtualCard_canMakeTransaction_def)

text \<open>
  C3. The evaluation is the cardholder's check followed by the card's check; it allows
  when both do. The cardholder's spent counter is the running daily total as the check
  observes it, that is zero when the last reset was on an earlier calendar day. Then:
  whenever the amount exceeds the single-transaction limit, or spent + amount is strictly
  greater than the cardholder's daily limit or the card's daily or monthly limit, the
  evaluation rejects; for an active card that is not past its expiry month it rejects
  exactly in those cases; and when the amount and every spent + amount are within their
  limits and the card is active and not expired, it allows.
\<close>

theorem limit_evaluation:
  "(js_gt a (single_transaction_limit u) \<or>
    js_gt (js_add (if new_day rt now (reset_daily_spent_at u)
                   then Num 0 else total_daily_spent u) a)
          (daily_transaction_limit u) \<or>
    js_gt (js_add (total_spent_today c) a) (daily_limit c) \<or>
    js_gt (js_add (total_spent_month c) a) (monthly_limit c)
    \<longrightarrow> \<not> (allowed (fst (User_canMakeTransaction rt now u a s)) \<and>
            allowed (VirtualCard_canMakeTransaction rt now c a))) \<and>
   (card_status c = Active \<and> \<not> VirtualCard_isExpired rt now c \<longrightarrow>
      (\<not> (allowed (fst (User_canMakeTransaction rt now u a s)) \<and>
          allowed (VirtualCard_canMakeTransaction rt now c a))
       \<longleftrightarrow>
       (js_gt a (single_transaction_limit u) \<or>
        js_gt (js_add (if new_day rt now (reset_daily_spent_at u)
                       then Num 0 else total_daily_spent u) a)
              (daily_transaction_limit u) \<or>
        js_gt (js_add (total_spent_today c) a) (daily_limit c) \<or>
        js_gt (js_add (total_spent_month c) a) (monthly_limit c)))) \<and>
   (js_le a (single_transaction_limit u) \<and>
    js_le (js_add (if new_day rt now (reset_daily_spent_at u)
                   then Num 0 else total_daily_spent u) a)
          (daily_transaction_limit u) \<and>
    js_le (js_add (total_spent_today c) a) (daily_limit c) \<and>
    js_le (js_add (total_spent_month c) a) (monthly_limit c) \<and>
    card_status c = Active \<and> \<not> VirtualCard_isExpired rt now c
    \<longrightarrow> allowed (fst (User_canMakeTransaction rt now u a s)) \<and>
        allowed (VirtualCard_canMakeTransaction rt now c a))"
  unfolding user_allowed_iff card_allowed_iff
  by (intro conjI impI) (blast dest: js_le_not_gt)+

theorem limit_evaluation_witness:
  "card_status (ex_card (Num 0)) = Active \<and>
   \<not> VirtualCard_isExpired ex_runtime 1000 (ex_card (Num 0)) \<and>
   js_gt (js_add (total_spent_today (ex_card (Num 0))) (Num 80000)) (daily_limit (ex_card (Num 0))) \<and>
   \<not> (allowed (fst (User_canMakeTransaction ex_runtime 1000 (ex_user (Num 0)) (Num 80000)
                      (ex_store Approved None (Num 0)))) \<and>
       allowed (VirtualCard_canMakeTransaction ex_runtime 1000 (ex_card (Num 0)) (Num 80000))) \<and>
   js_le (js_add (total_spent_today (ex_card (Num 0))) (Num 1000)) (daily_limit (ex_card (Num 0))) \<and>
   allowed (fst (User_canMakeTransaction ex_runtime 1000 (ex_user (Num 0)) (Num 1000)
                   (ex_store Approved None (Num 0)))) \<and>
   allowed (VirtualCard_canMakeTransaction ex_runtime 1000 (ex_card (Num 0)) (Num 1000))"
  using limit_evaluation [where a = "Num 80000" and u = "ex_user (Num 0)" and rt = ex_runtime
          and now = 1000 and c = "ex_card (Num 0)" and s = "ex_store Approved None (Num 0)"]
        limit_evaluation [where a = "Num 1000" and u = "ex_user (Num 0)" and rt = ex_runtime
          and now = 1000 and c = "ex_card (Num 0)" and s = "ex_store Approved None (Num 0)"]
  by (simp add: ex_card_def ex_user_def ex_runtime_def new_day_def VirtualCard_isExpired_def)

section \<open>Ledger transitions\<close>



lemma updateStatus_Expired: "updateStatus now Expired Map.empty t = t\<lparr>status := Expired\<rparr>"
  by (simp add: updateStatus_def)

lemma terminal_not_pending: "terminal (status t) \<Longrightarrow> \<not> pending_filter now t"
  by (auto simp: terminal_def pending_filter_def)

lemma map_add_twice: "(m ++ n) ++ n = m ++ n"
  by (rule ext) (simp add: map_add_def split: option.splits)

text \<open>
  C2, as the claim states it, fails: the transition operation moves an approved entry to
  \<open>declined\<close>, and even back to the non-terminal \<open>stk_push_sent\<close>.
\<close>

theorem updateStatus_leaves_terminal:
  "terminal (status (ex_entry Approved None)) \<and>
   status (updateStatus 1000 Declined Map.empty (ex_entry Approved None)) = Declined \<and>
   \<not> terminal (status (updateStatus 1000 Stk_push_sent Map.empty (ex_entry Approved None))) \<and>
   updateStatus 1000 Declined Map.empty (ex_entry Approved None) \<noteq> ex_entry Approved None"
  by (simp add: updateStatus_def ex_entry_def terminal_def)

text \<open>
  C2, amended. The transition operation has no terminal-state guard and reports nothing:
  on every entry, terminal or not, it sets the requested status, merges the metadata and
  stamps the time stamp that belongs to the new status; doing the same transition again at
  the same instant changes nothing more. What keeps a terminal entry where it is lies with
  the callers: the expiry selection never selects one.
\<close>

theorem updateStatus_unguarded:
  "status (updateStatus now st md t) = st \<and>
   metadata (updateStatus now st md t) = metadata t ++ md \<and>
   completed_at (updateStatus now st md t) =
     (if st = Approved \<or> st = Declined \<or> st = Failed then Some now else completed_at t) \<and>
   stk_push_sent_at (updateStatus now st md t) =
     (if st = Stk_push_sent then Some now else stk_push_sent_at t) \<and>
   user_response_at (updateStatus now st md t) =
     (if st = Awaiting_user_response then Some now else user_response_at t) \<and>
   updateStatus now st md (updateStatus now st md t) = updateStatus now st md t \<and>
   (terminal (status t) \<longrightarrow> t \<notin> set (findPendingTransactions now' s))"
  by (cases st) (auto simp: updateStatus_def findPendingTransactions_def map_add_twice
        dest: terminal_not_pending)

theorem updateStatus_unguarded_witness:
  "terminal (status (ex_entry Approved (Some 500))) \<and>
   ex_entry Approved (Some 500)
     \<notin> set (findPendingTransactions 1000 (ex_store Approved (Some 500) (Num 1000))) \<and>
   status (updateStatus 1000 Failed Map.empty (ex_entry Approved (Some 500))) = Failed"
  using updateStatus_unguarded [where t = "ex_entry Approved (Some 500)" and now = 1000
          and st = Failed and md = Map.empty and now' = 1000
          and s = "ex_store Approved (Some 500) (Num 1000)"]
  by (simp add: terminal_def ex_entry_def)

section \<open>Expiry sweep: selection and effect\<close>

lemma sweep_select:
  "t \<in> set (findPendingTransactions now s) \<longleftrightarrow>
     t \<in> set (transactions s) \<and>
     (status t = Stk_push_sent \<or> status t = Awaiting_user_response) \<and>
     (\<exists>d. timeout_at t = Some d \<and> d < now)"
  by (auto simp: findPendingTransactions_def pending_filter_def split: option.splits)

lemma pending_filter_expired [simp]: "\<not> pending_filter now (t\<lparr>status := Expired\<rparr>)"
  by (simp add: pending_filter_def)

lemma filter_after_sweep:
  "filter (pending_filter now')
     (map (\<lambda>t. if pending_filter now t then updateStatus now Expired Map.empty t else t) ts) =
   filter (\<lambda>x. pending_filter now' x \<and> \<not> pending_filter now x) ts"
  by (induction ts) (auto simp: updateStatus_Expired)

lemma sweep_twice:
  "map (\<lambda>t. if pending_filter now t then updateStatus now Expired Map.empty t else t)
     (map (\<lambda>t. if pending_filter now t then updateStatus now Expired Map.empty t else t) ts) =
   map (\<lambda>t. if pending_filter now t then updateStatus now Expired Map.empty t else t) ts"
  by (induction ts) (auto simp: updateStatus_Expired)

text \<open>
  C4. The selection returns exactly the stored entries whose status is \<open>stk_push_sent\<close>
  or \<open>awaiting_user_response\<close> and whose deadline is set and earlier than now. The
  sweep gives each selected entry the status \<open>expired\<close> and changes nothing else, entry
  by entry; cards and cardholders are untouched. A later sweep selects only entries the
  earlier one did not, and sweeping twice at one instant equals sweeping once.
\<close>

theorem expiry_sweep:
  "(t \<in> set (findPendingTransactions now s) \<longleftrightarrow>
      t \<in> set (transactions s) \<and>
      (status t = Stk_push_sent \<or> status t = Awaiting_user_response) \<and>
      (\<exists>d. timeout_at t = Some d \<and> d < now)) \<and>
   transactions (expirySweep now s) =
     map (\<lambda>x. if x \<in> set (findPendingTransactions now s) then x\<lparr>status := Expired\<rparr> else x)
         (transactions s) \<and>
   cards (expirySweep now s) = cards s \<and> users (expirySweep now s) = users s \<and>
   findPendingTransactions now' (expirySweep now s) =
     filter (\<lambda>x. pending_filter now' x \<and> \<not> pending_filter now x) (transactions s) \<and>
   expirySweep now (expirySweep now s) = expirySweep now s"
proof -
  have sel: "\<And>x. x \<in> set (transactions s) \<Longrightarrow>
      (x \<in> set (findPendingTransactions now s)) = pending_filter now x"
    by (simp add: findPendingTransactions_def)
  have A: "transactions (expirySweep now s) =
     map (\<lambda>x. if x \<in> set (findPendingTransactions now s) then x\<lparr>status := Expired\<rparr> else x)
         (transactions s)"
    by (auto simp: expirySweep_def updateStatus_Expired sel)
  have B: "findPendingTransactions now' (expirySweep now s) =
     filter (\<lambda>x. pending_filter now' x \<and> \<not> pending_filter now x) (transactions s)"
    by (simp add: findPendingTransactions_def expirySweep_def filter_after_sweep)
  have C: "expirySweep now (expirySweep now s) = expirySweep now s"
    by (simp add: expirySweep_def sweep_twice del: map_map)
  show ?thesis using sweep_select A B C by (simp add: expirySweep_def)
qed

section \<open>What the lookups of the services return\<close>







lemma findByCardNumberHash_example:
  "findByCardNumberHash (sha256 ex_runtime ''4000011234567890'') (ex_store st deadline spent)
     = Some (ex_card spent)"
  by (simp add: findByCardNumberHash_def findOne_def meets_def card_path_def
        ex_store_def ex_card_def ex_runtime_def)






section \<open>Reconciliation\<close>

lemma save_transaction_other [simp]:
  "cards (save_transaction t s) = cards s" "users (save_transaction t s) = users s"
  by (simp_all add: save_transaction_def)

lemma save_card_other [simp]:
  "transactions (save_card c s) = transactions s" "users (save_card c s) = users s"
  by (simp_all add: save_card_def)







section \<open>Status query\<close>













section \<open>Authorization\<close>

















end
